theory Spec2Isabelle
  imports Complex_Main "HOL-Library.Multiset"
begin

section \<open>Heat pump telemetry analytics: a shallow embedding of data_query.py\<close>

text \<open>
  The embedding follows \<^verbatim>\<open>HeatPumpDataQuery\<close> in \<^verbatim>\<open>src/data_query.py\<close>.
  Python floats are modelled as the real numbers they approximate, pandas timestamps as
  seconds on the real line (so \<^verbatim>\<open>(a - b).total_seconds()\<close> is a difference), and a
  data frame of InfluxDB rows as the list of its rows in index order. Strings are ASCII.
\<close>

subsection \<open>Errors and Python's \<^verbatim>\<open>int()\<close>\<close>

datatype py_error = ValueError

text \<open>
  A character of the model is a code point below 256. The whitespace that \<^verbatim>\<open>int()\<close>
  skips at both ends of a string is, among these, the code points 9 to 13, the space, and
  the two above 127 that are whitespace (next line, 133, and no-break space, 160). The
  separators 28 to 31, which \<^verbatim>\<open>str.strip\<close> removes, are not skipped.
\<close>

definition is_space :: "char \<Rightarrow> bool" where
  "is_space c = (of_char c \<in> set [9, 10, 11, 12, 13, 32, 133, 160 :: nat])"

definition digit_of :: "char \<Rightarrow> nat option" where
  "digit_of c = (let k = (of_char c :: nat) in if 48 \<le> k \<and> k \<le> 57 then Some (k - 48) else None)"

text \<open>
  The digits after the first one: every further digit may be preceded by a single
  underscore, and nothing else is allowed.
\<close>

fun parse_digits :: "nat \<Rightarrow> string \<Rightarrow> nat option" where
  "parse_digits acc [] = Some acc"
| "parse_digits acc [c] =
     (case digit_of c of None \<Rightarrow> None | Some v \<Rightarrow> Some (10 * acc + v))"
| "parse_digits acc (c # d # ds) =
     (if c = CHR ''_''
      then (case digit_of d of None \<Rightarrow> None | Some v \<Rightarrow> parse_digits (10 * acc + v) ds)
      else (case digit_of c of None \<Rightarrow> None | Some v \<Rightarrow> parse_digits (10 * acc + v) (d # ds)))"

definition strip :: "string \<Rightarrow> string" where
  "strip s = rev (dropWhile is_space (rev (dropWhile is_space s)))"

definition parse_unsigned :: "string \<Rightarrow> nat option" where
  "parse_unsigned s =
     (case s of [] \<Rightarrow> None
      | c # cs \<Rightarrow> (case digit_of c of None \<Rightarrow> None | Some v \<Rightarrow> parse_digits v cs))"

text \<open>
  \<^verbatim>\<open>int(s)\<close> on a string: surrounding whitespace is dropped, one sign is allowed, then
  decimal digits; anything else raises \<^verbatim>\<open>ValueError\<close>, and so does a numeral of
  more than 4300 digits (the interpreter's default limit; underscores are not counted).
\<close>

definition py_int :: "string \<Rightarrow> py_error + int" where
  "py_int s =
     (let t = strip s;
          neg = (t \<noteq> [] \<and> hd t = CHR ''-'');
          body = (if t \<noteq> [] \<and> (hd t = CHR ''-'' \<or> hd t = CHR ''+'') then tl t else t)
      in case parse_unsigned body of
           None \<Rightarrow> Inl ValueError
         | Some n \<Rightarrow>
             if length (filter (\<lambda>c. c \<noteq> CHR ''_'') body) > 4300 then Inl ValueError
             else Inr (if neg then - int n else int n))"

text \<open>
  The decimal numeral of a natural number, as \<^verbatim>\<open>str(n)\<close> writes it: the usual way the
  count of hours or days of a range is written.
\<close>

definition digit_char :: "nat \<Rightarrow> char" where
  "digit_char d = char_of (48 + d)"

fun decimal :: "nat \<Rightarrow> string" where
  "decimal n = (if n < 10 then [digit_char n] else decimal (n div 10) @ [digit_char (n mod 10)])"

declare decimal.simps [simp del]

definition endswith :: "string \<Rightarrow> char \<Rightarrow> bool" where
  "endswith s c = (s \<noteq> [] \<and> last s = c)"

subsection \<open>Aggregation window selection\<close>

definition get_aggregation_window :: "string \<Rightarrow> py_error + string" where
  "get_aggregation_window time_range =
     (if endswith time_range CHR ''h'' then
        (case py_int (butlast time_range) of
           Inl e \<Rightarrow> Inl e
         | Inr hours \<Rightarrow>
             Inr (if hours \<le> 1 then ''1m''
                  else if hours \<le> 6 then ''3m''
                  else if hours \<le> 24 then ''5m''
                  else ''15m''))
      else if endswith time_range CHR ''d'' then
        (case py_int (butlast time_range) of
           Inl e \<Rightarrow> Inl e
         | Inr days \<Rightarrow>
             Inr (if days \<le> 1 then ''5m''
                  else if days \<le> 7 then ''30m''
                  else if days \<le> 30 then ''2h''
                  else ''6h''))
      else Inr ''5m'')"

definition get_cop_aggregation_window :: "string \<Rightarrow> py_error + string" where
  "get_cop_aggregation_window time_range =
     (if endswith time_range CHR ''h'' then
        (case py_int (butlast time_range) of
           Inl e \<Rightarrow> Inl e
         | Inr hours \<Rightarrow>
             Inr (if hours \<le> 1 then ''1m''
                  else if hours \<le> 6 then ''2m''
                  else if hours \<le> 24 then ''5m''
                  else ''10m''))
      else if endswith time_range CHR ''d'' then
        (case py_int (butlast time_range) of
           Inl e \<Rightarrow> Inl e
         | Inr days \<Rightarrow>
             Inr (if days \<le> 1 then ''5m''
                  else if days \<le> 7 then ''10m''
                  else if days \<le> 30 then ''10m''
                  else ''1h''))
      else Inr ''5m'')"

subsection \<open>Rows, frames and the telemetry source\<close>

record sample =
  s_name :: string
  s_time :: real
  s_value :: real
  s_unit :: string

type_synonym frame = "sample list"

text \<open>
  \<^verbatim>\<open>query_api.query_data_frame\<close> either raises or returns rows. The rows a query returns
  depend on the query text only, which the three kinds of query of this module build from
  the arguments given here.
\<close>

datatype upstream = Raises | Returns frame

record influx =
  aggregate_query :: "string list \<Rightarrow> string \<Rightarrow> string \<Rightarrow> upstream"
  last_query :: upstream
  event_query :: "string \<Rightarrow> upstream"

text \<open>
  \<^verbatim>\<open>sort_values('_time')\<close>. pandas does not fix the order of rows with equal timestamps;
  the model keeps their order. Whenever the timestamps of the sorted rows are distinct, or
  the rows are sorted already, there is one result only.
\<close>

definition sort_values :: "frame \<Rightarrow> frame" where
  "sort_values df = sort_key s_time df"

definition no_division_fields :: "string list" where
  "no_division_fields =
     [''compressor_status'', ''brine_pump_status'', ''radiator_pump_status'',
      ''switch_valve_status'', ''alarm_status'', ''alarm_code'',
      ''operating_mode'', ''external_control'',
      ''power_consumption'']"

text \<open>
  \<^verbatim>\<open>query_metrics\<close>: the whole body is inside \<^verbatim>\<open>try\<close>, so an error of the
  window selection or of the query gives the empty frame. Rows of the source always carry
  a name and a value; the loop divides the value of every row whose name is not in the
  list by ten.
\<close>

definition query_metrics :: "influx \<Rightarrow> string list \<Rightarrow> string \<Rightarrow> string option \<Rightarrow> frame" where
  "query_metrics db metric_names time_range aggregation_window =
     (case (case aggregation_window of
              None \<Rightarrow> get_aggregation_window time_range
            | Some w \<Rightarrow> Inr w) of
        Inl e \<Rightarrow> []
      | Inr w \<Rightarrow>
          (case aggregate_query db metric_names time_range w of
             Raises \<Rightarrow> []
           | Returns result \<Rightarrow>
               map (\<lambda>row. if s_name row \<notin> set no_division_fields
                          then row\<lparr>s_value := s_value row / 10\<rparr> else row) result))"

text \<open>
  \<^verbatim>\<open>get_latest_values\<close>: a dictionary from metric name to value, unit and time; a
  later row of a metric replaces an earlier one.
\<close>

record latest_entry =
  l_value :: real
  l_unit :: string
  l_time :: real

definition get_latest_values :: "influx \<Rightarrow> (string \<rightharpoonup> latest_entry)" where
  "get_latest_values db =
     (case last_query db of
        Raises \<Rightarrow> Map.empty
      | Returns result \<Rightarrow>
          foldl (\<lambda>latest row.
                   latest(s_name row \<mapsto>
                     \<lparr>l_value = (if s_name row \<notin> set no_division_fields
                                 then s_value row / 10 else s_value row),
                      l_unit = s_unit row,
                      l_time = s_time row\<rparr>))
                Map.empty result)"

subsection \<open>Rounding and small numeric helpers\<close>








subsection \<open>Energy integration\<close>






subsection \<open>Duty-cycle runtime\<close>






subsection \<open>Hot-water cycles\<close>












subsection \<open>COP estimate\<close>














subsection \<open>Event log\<close>

datatype severity = info | warning | danger | success

datatype icon =
  Icon_cycle | Icon_pause | Icon_droplet | Icon_antenna | Icon_shower | Icon_fire
  | Icon_warning | Icon_check

text \<open>
  The texts of the events. The percentage and the alarm description are the parts the
  source formats into the text; an alarm code without an entry in the brand's table is
  shown by its number.
\<close>

datatype alarm_desc = Known string | Kod int

datatype event_text =
  Kompressor_PA | Kompressor_AV
  | Koldbararpump_PA | Koldbararpump_AV
  | Radiatorpump_PA | Radiatorpump_AV
  | Varmvattencykel_START | Varmvattencykel_STOPP
  | Tillsattsvarme_PA int | Tillsattsvarme_AV | Tillsattsvarme_andrad_till int
  | LARM alarm_desc | Larm_aterstallt

record event =
  e_time :: real
  e_event :: event_text
  e_type :: severity
  e_icon :: icon

text \<open>\<^verbatim>\<open>int(x)\<close> on a float truncates towards zero.\<close>

definition py_trunc :: "real \<Rightarrow> int" where
  "py_trunc x = (if x \<ge> 0 then \<lfloor>x\<rfloor> else \<lceil>x\<rceil>)"

definition on_off :: "real \<Rightarrow> real \<Rightarrow> real \<Rightarrow> event_text \<Rightarrow> icon \<Rightarrow> event_text \<Rightarrow> icon \<Rightarrow> event list" where
  "on_off timestamp current previous on_text on_icon off_text off_icon =
     (if current > 0 \<and> previous = 0
      then [\<lparr>e_time = timestamp, e_event = on_text, e_type = info, e_icon = on_icon\<rparr>]
      else if current = 0 \<and> previous > 0
      then [\<lparr>e_time = timestamp, e_event = off_text, e_type = info, e_icon = off_icon\<rparr>]
      else [])"

text \<open>
  The body of the loop over the rows of one metric, for a row with a predecessor: the
  events it appends. \<open>alarm_codes\<close> is the table of the brand's provider.
\<close>

definition detect :: "(int \<rightharpoonup> string) \<Rightarrow> string \<Rightarrow> real \<Rightarrow> real \<Rightarrow> real \<Rightarrow> event list" where
  "detect alarm_codes metric timestamp current previous =
     (if metric = ''compressor_status'' then
        on_off timestamp current previous Kompressor_PA Icon_cycle Kompressor_AV Icon_pause
      else if metric = ''brine_pump_status'' then
        on_off timestamp current previous Koldbararpump_PA Icon_droplet Koldbararpump_AV Icon_droplet
      else if metric = ''radiator_pump_status'' then
        on_off timestamp current previous Radiatorpump_PA Icon_antenna Radiatorpump_AV Icon_antenna
      else if metric = ''switch_valve_status'' then
        (if current = 1 \<and> previous = 0
         then [\<lparr>e_time = timestamp, e_event = Varmvattencykel_START, e_type = info, e_icon = Icon_shower\<rparr>]
         else if current = 0 \<and> previous = 1
         then [\<lparr>e_time = timestamp, e_event = Varmvattencykel_STOPP, e_type = info, e_icon = Icon_shower\<rparr>]
         else [])
      else if metric = ''additional_heat_percent'' then
        (if current > 0 \<and> previous = 0
         then [\<lparr>e_time = timestamp, e_event = Tillsattsvarme_PA (py_trunc current),
                e_type = warning, e_icon = Icon_fire\<rparr>]
         else if current = 0 \<and> previous > 0
         then [\<lparr>e_time = timestamp, e_event = Tillsattsvarme_AV, e_type = info, e_icon = Icon_fire\<rparr>]
         else if current > 0 \<and> previous > 0 \<and> \<bar>current - previous\<bar> > 10
         then [\<lparr>e_time = timestamp, e_event = Tillsattsvarme_andrad_till (py_trunc current),
                e_type = warning, e_icon = Icon_fire\<rparr>]
         else [])
      else if metric = ''alarm_code'' then
        (if current > 0 \<and> previous = 0
         then [\<lparr>e_time = timestamp,
                e_event = LARM (case alarm_codes (py_trunc current) of
                                  Some d \<Rightarrow> Known d | None \<Rightarrow> Kod (py_trunc current)),
                e_type = danger, e_icon = Icon_warning\<rparr>]
         else if current = 0 \<and> previous > 0
         then [\<lparr>e_time = timestamp, e_event = Larm_aterstallt, e_type = success, e_icon = Icon_check\<rparr>]
         else [])
      else [])"

definition metric_events :: "(int \<rightharpoonup> string) \<Rightarrow> string \<Rightarrow> frame \<Rightarrow> event list" where
  "metric_events alarm_codes metric result =
     (let result = sort_values result in
      concat (map (\<lambda>(prev, row). detect alarm_codes metric (s_time row) (s_value row) (s_value prev))
                  (zip result (tl result))))"

definition event_metrics :: "string list" where
  "event_metrics =
     [''compressor_status'', ''brine_pump_status'', ''radiator_pump_status'',
      ''switch_valve_status'', ''additional_heat_percent'', ''alarm_code'']"

text \<open>
  The loop over the metrics: a query that raises ends the whole function, which then
  returns the empty list; a query without rows is skipped.
\<close>

fun collect_events :: "influx \<Rightarrow> (int \<rightharpoonup> string) \<Rightarrow> event list \<Rightarrow> string list \<Rightarrow> event list option" where
  "collect_events db alarm_codes events [] = Some events"
| "collect_events db alarm_codes events (metric # metrics) =
     (case event_query db metric of
        Raises \<Rightarrow> None
      | Returns result \<Rightarrow>
          collect_events db alarm_codes (events @ metric_events alarm_codes metric result) metrics)"

text \<open>
  \<^verbatim>\<open>sorted(events, key=lambda x: x['time'], reverse=True)\<close>: descending by time, events
  with equal times in the order they had. \<^verbatim>\<open>events[:limit]\<close> with a negative limit drops
  that many events from the end.
\<close>

definition sorted_reverse :: "event list \<Rightarrow> event list" where
  "sorted_reverse events = sort_key (\<lambda>e. - e_time e) events"

definition slice_to :: "int \<Rightarrow> 'a list \<Rightarrow> 'a list" where
  "slice_to limit xs =
     (if limit \<ge> 0 then take (nat limit) xs else take (nat (int (length xs) + limit)) xs)"

definition get_event_log :: "influx \<Rightarrow> (int \<rightharpoonup> string) \<Rightarrow> int \<Rightarrow> event list" where
  "get_event_log db alarm_codes limit =
     (case collect_events db alarm_codes [] event_metrics of
        None \<Rightarrow> []
      | Some events \<Rightarrow> slice_to limit (sorted_reverse events))"

subsection \<open>Concrete inputs\<close>

text \<open>Rows and sources on which the properties below are evaluated.\<close>

definition mk :: "string \<Rightarrow> real \<Rightarrow> real \<Rightarrow> sample" where
  "mk n t v = \<lparr>s_name = n, s_time = t, s_value = v, s_unit = ''''\<rparr>"

definition demo_rows :: frame where
  "demo_rows =
     [mk ''radiator_forward'' 0 215, mk ''power_consumption'' 0 1000,
      mk ''radiator_forward'' 60 220]"

definition demo_db :: influx where
  "demo_db =
     \<lparr>aggregate_query = (\<lambda>names time_range window. Returns demo_rows),
      last_query = Returns demo_rows,
      event_query = (\<lambda>metric. Returns [])\<rparr>"

definition valve :: "real \<Rightarrow> real \<Rightarrow> sample" where
  "valve t v = \<lparr>s_name = ''switch_valve_status'', s_time = t, s_value = v, s_unit = []\<rparr>"





definition tie_db :: influx where
  "tie_db =
     \<lparr>aggregate_query = (\<lambda>names time_range window. Returns []),
      last_query = Returns [],
      event_query = (\<lambda>metric.
        if metric = ''compressor_status'' \<or> metric = ''brine_pump_status''
        then Returns [mk metric 0 0, mk metric 60 1] else Returns [])\<rparr>"

definition toggle_rows :: frame where
  "toggle_rows =
     [mk ''compressor_status'' 0 0, mk ''compressor_status'' 60 1,
      mk ''compressor_status'' 120 0, mk ''compressor_status'' 180 1,
      mk ''compressor_status'' 240 0, mk ''compressor_status'' 300 1,
      mk ''compressor_status'' 360 0, mk ''compressor_status'' 420 1,
      mk ''compressor_status'' 480 0, mk ''compressor_status'' 540 1,
      mk ''compressor_status'' 600 0, mk ''compressor_status'' 660 1,
      mk ''compressor_status'' 720 0, mk ''compressor_status'' 780 1,
      mk ''compressor_status'' 840 0, mk ''compressor_status'' 900 1]"

definition toggle_result :: "string \<Rightarrow> frame" where
  "toggle_result metric = (if metric = ''compressor_status'' then toggle_rows else [])"

definition toggle_db :: influx where
  "toggle_db =
     \<lparr>aggregate_query = (\<lambda>names time_range window. Returns []),
      last_query = Returns [],
      event_query = (\<lambda>metric. Returns (toggle_result metric))\<rparr>"










section \<open>Properties\<close>

subsection \<open>Aggregation windows\<close>

lemma get_aggregation_window_hours:
  "py_int s = Inr n \<Longrightarrow> get_aggregation_window (s @ ''h'') =
     Inr (if n \<le> 1 then ''1m'' else if n \<le> 6 then ''3m'' else if n \<le> 24 then ''5m'' else ''15m'')"
  by (simp add: get_aggregation_window_def endswith_def)

lemma get_aggregation_window_days:
  "py_int s = Inr n \<Longrightarrow> get_aggregation_window (s @ ''d'') =
     Inr (if n \<le> 1 then ''5m'' else if n \<le> 7 then ''30m'' else if n \<le> 30 then ''2h'' else ''6h'')"
  by (simp add: get_aggregation_window_def endswith_def)

lemma get_cop_aggregation_window_hours:
  "py_int s = Inr n \<Longrightarrow> get_cop_aggregation_window (s @ ''h'') =
     Inr (if n \<le> 1 then ''1m'' else if n \<le> 6 then ''2m'' else if n \<le> 24 then ''5m'' else ''10m'')"
  by (simp add: get_cop_aggregation_window_def endswith_def)

lemma get_cop_aggregation_window_days:
  "py_int s = Inr n \<Longrightarrow> get_cop_aggregation_window (s @ ''d'') =
     Inr (if n \<le> 1 then ''5m'' else if n \<le> 7 then ''10m'' else if n \<le> 30 then ''10m'' else ''1h'')"
  by (simp add: get_cop_aggregation_window_def endswith_def)

lemma digit_of_digit_char: "d < 10 \<Longrightarrow> digit_of (digit_char d) = Some d"
  by (simp add: digit_of_def digit_char_def Let_def)

lemma digit_char_plain:
  assumes "d < 10"
  shows "\<not> is_space (digit_char d)" "digit_char d \<noteq> CHR ''_''"
    "digit_char d \<noteq> CHR ''-''" "digit_char d \<noteq> CHR ''+''"
    "(of_char (digit_char d) :: nat) - 48 = d"
proof -
  have v: "(of_char (digit_char d) :: nat) = 48 + d"
    using assms by (simp add: digit_char_def)
  show "\<not> is_space (digit_char d)" using assms by (simp add: is_space_def v)
  have "(of_char (digit_char d) :: nat) \<noteq> of_char CHR ''_''" using assms by (simp add: v)
  then show "digit_char d \<noteq> CHR ''_''" by auto
  have "(of_char (digit_char d) :: nat) \<noteq> of_char CHR ''-''" using assms by (simp add: v)
  then show "digit_char d \<noteq> CHR ''-''" by auto
  have "(of_char (digit_char d) :: nat) \<noteq> of_char CHR ''+''" using assms by (simp add: v)
  then show "digit_char d \<noteq> CHR ''+''" by auto
  show "(of_char (digit_char d) :: nat) - 48 = d" by (simp add: v)
qed

lemma decimal_digits: "\<forall>c\<in>set (decimal n). \<exists>d<10. c = digit_char d"
proof (induction n rule: decimal.induct)
  case (1 n)
  show ?case
  proof (cases "n < 10")
    case True
    then show ?thesis by (subst decimal.simps) auto
  next
    case False
    have "\<exists>d<10. digit_char (n mod 10) = digit_char d"
      by (intro exI[of _ "n mod 10"]) simp
    with False 1 show ?thesis by (subst decimal.simps) auto
  qed
qed

lemma decimal_not_Nil: "decimal n \<noteq> []"
  by (subst decimal.simps) simp

lemma decimal_value:
  "foldl (\<lambda>a c. 10 * a + (of_char c - 48)) 0 (decimal n) = n"
proof (induction n rule: decimal.induct)
  case (1 n)
  show ?case
  proof (cases "n < 10")
    case True
    then show ?thesis by (subst decimal.simps) (simp add: digit_char_plain)
  next
    case False
    have "n mod 10 < 10" by simp
    then have "(of_char (digit_char (n mod 10)) :: nat) - 48 = n mod 10"
      by (rule digit_char_plain)
    with False 1 show ?thesis by (subst decimal.simps) simp
  qed
qed

lemma parse_digits_plain:
  "\<forall>c\<in>set cs. \<exists>d<10. c = digit_char d \<Longrightarrow>
     parse_digits acc cs = Some (foldl (\<lambda>a c. 10 * a + (of_char c - 48)) acc cs)"
proof (induction acc cs rule: parse_digits.induct)
  case (1 acc)
  then show ?case by simp
next
  case (2 acc c)
  then obtain d where "d < 10" "c = digit_char d" by auto
  then show ?case by (simp add: digit_of_digit_char digit_char_plain)
next
  case (3 acc c d ds)
  from "3.prems" obtain k where k: "k < 10" "c = digit_char k" by auto
  then have c: "c \<noteq> CHR ''_''" "digit_of c = Some k" "(of_char c :: nat) - 48 = k"
    by (simp_all add: digit_char_plain digit_of_digit_char)
  from "3.prems" have "\<forall>c\<in>set (d # ds). \<exists>d<10. c = digit_char d" by simp
  with "3.IH"(2)[OF c(1) c(2)] have
    "parse_digits (10 * acc + k) (d # ds) =
       Some (foldl (\<lambda>a c. 10 * a + (of_char c - 48)) (10 * acc + k) (d # ds))" .
  with c show ?case by simp
qed

lemma strip_plain: "\<forall>c\<in>set s. \<not> is_space c \<Longrightarrow> strip s = s"
proof -
  assume a: "\<forall>c\<in>set s. \<not> is_space c"
  have d: "dropWhile is_space xs = xs" if "\<forall>c\<in>set xs. \<not> is_space c" for xs
    using that by (cases xs) simp_all
  have "dropWhile is_space s = s" using a by (rule d)
  moreover have "dropWhile is_space (rev s) = rev s" using a by (intro d) simp
  ultimately show ?thesis by (simp add: strip_def)
qed

lemma py_int_decimal:
  assumes "length (decimal n) \<le> 4300"
  shows "py_int (decimal n) = Inr (int n)"
proof -
  obtain c cs where d: "decimal n = c # cs" using decimal_not_Nil[of n] by (cases "decimal n") auto
  have all: "\<forall>c\<in>set (decimal n). \<exists>d<10. c = digit_char d" by (rule decimal_digits)
  have ns: "\<forall>c\<in>set (decimal n). \<not> is_space c"
  proof
    fix x assume "x \<in> set (decimal n)"
    with all obtain j where "j < 10" "x = digit_char j" by auto
    then show "\<not> is_space x" by (simp add: digit_char_plain(1))
  qed
  have nu: "\<forall>c\<in>set (decimal n). c \<noteq> CHR ''_''"
  proof
    fix x assume "x \<in> set (decimal n)"
    with all obtain j where "j < 10" "x = digit_char j" by auto
    then show "x \<noteq> CHR ''_''" by (simp add: digit_char_plain(2))
  qed
  have "c \<in> set (decimal n)" unfolding d by simp
  with all obtain k where k: "k < 10" "c = digit_char k" by auto
  have st: "strip (decimal n) = decimal n" using ns by (rule strip_plain)
  have sg: "c \<noteq> CHR ''-''" "c \<noteq> CHR ''+''"
    using k digit_char_plain(3)[of k] digit_char_plain(4)[of k] by simp_all
  have dc: "digit_of c = Some k" using k by (simp add: digit_of_digit_char)
  have dv: "(of_char c :: nat) - 48 = k" using k digit_char_plain(5)[of k] by simp
  have rest: "\<forall>c\<in>set cs. \<exists>d<10. c = digit_char d"
  proof
    fix x assume "x \<in> set cs"
    then have "x \<in> set (decimal n)" unfolding d by simp
    with all show "\<exists>d<10. x = digit_char d" by (rule bspec)
  qed
  have p1: "parse_digits k cs = Some (foldl (\<lambda>a c. 10 * a + (of_char c - 48)) k cs)"
    using rest by (rule parse_digits_plain)
  have p2: "foldl (\<lambda>a c. 10 * a + (of_char c - 48)) k cs =
            foldl (\<lambda>a c. 10 * a + (of_char c - 48)) 0 (c # cs)"
    using dv by simp
  have p3: "foldl (\<lambda>a c. 10 * a + (of_char c - 48)) 0 (c # cs) = n"
    using decimal_value[of n] unfolding d .
  have pu: "parse_unsigned (decimal n) = Some n"
    unfolding d parse_unsigned_def using dc p1 p2 p3 by simp
  have fl: "filter (\<lambda>c. c \<noteq> CHR ''_'') (decimal n) = decimal n"
    using nu by (simp add: filter_id_conv)
  have ne: "decimal n \<noteq> []" by (rule decimal_not_Nil)
  have h1: "hd (decimal n) \<noteq> CHR ''-''" and h2: "hd (decimal n) \<noteq> CHR ''+''"
    using sg unfolding d by simp_all
  have body: "(if decimal n \<noteq> [] \<and> (hd (decimal n) = CHR ''-'' \<or> hd (decimal n) = CHR ''+'')
               then tl (decimal n) else decimal n) = decimal n"
    using h1 h2 by simp
  have lim: "\<not> 4300 < length (decimal n)" using assms by simp
  show ?thesis
    unfolding py_int_def st Let_def body by (simp add: pu fl lim h1)
qed

lemma char_of_eqI: "(of_char c :: nat) = k \<Longrightarrow> char_of k = c"
  by auto

lemma digit_char_2: "digit_char 2 = CHR ''2''"
  unfolding digit_char_def by (rule char_of_eqI) simp

lemma digit_char_4: "digit_char 4 = CHR ''4''"
  unfolding digit_char_def by (rule char_of_eqI) simp

lemma decimal_24: "decimal 24 = ''24''"
  by (simp add: decimal.simps digit_char_2 digit_char_4)

lemma py_int_24: "py_int ''24'' = Inr 24"
  using py_int_decimal[of 24] by (simp add: decimal_24)

text \<open>
  C6. Both selectors are functions of the range string alone. The decimal numeral of a
  natural number \<open>n\<close> (of at most 4300 digits) reads as \<open>n\<close>, and followed by \<open>h\<close> the
  batch policy gives it 1m up to 1, 3m up to 6, 5m up to 24 and 15m beyond, followed by
  \<open>d\<close> 5m up to 1, 30m up to 7, 2h up to 30 and 6h beyond; the COP policy gives 1m, 2m,
  5m, 10m for hours and 5m, 10m, 10m, 1h for days at the same bounds. The same tables
  hold for every other text that \<^verbatim>\<open>int()\<close> reads as an integer \<open>k\<close>.
\<close>

theorem window_policy:
  assumes "length (decimal n) \<le> 4300" and "py_int s = Inr k"
  shows "py_int (decimal n) = Inr (int n)
       \<and> get_aggregation_window (decimal n @ ''h'') =
           Inr (if n \<le> 1 then ''1m'' else if n \<le> 6 then ''3m'' else if n \<le> 24 then ''5m'' else ''15m'')
       \<and> get_aggregation_window (decimal n @ ''d'') =
           Inr (if n \<le> 1 then ''5m'' else if n \<le> 7 then ''30m'' else if n \<le> 30 then ''2h'' else ''6h'')
       \<and> get_cop_aggregation_window (decimal n @ ''h'') =
           Inr (if n \<le> 1 then ''1m'' else if n \<le> 6 then ''2m'' else if n \<le> 24 then ''5m'' else ''10m'')
       \<and> get_cop_aggregation_window (decimal n @ ''d'') =
           Inr (if n \<le> 1 then ''5m'' else if n \<le> 7 then ''10m'' else if n \<le> 30 then ''10m'' else ''1h'')
       \<and> get_aggregation_window (s @ ''h'') =
           Inr (if k \<le> 1 then ''1m'' else if k \<le> 6 then ''3m'' else if k \<le> 24 then ''5m'' else ''15m'')
       \<and> get_aggregation_window (s @ ''d'') =
           Inr (if k \<le> 1 then ''5m'' else if k \<le> 7 then ''30m'' else if k \<le> 30 then ''2h'' else ''6h'')
       \<and> get_cop_aggregation_window (s @ ''h'') =
           Inr (if k \<le> 1 then ''1m'' else if k \<le> 6 then ''2m'' else if k \<le> 24 then ''5m'' else ''10m'')
       \<and> get_cop_aggregation_window (s @ ''d'') =
           Inr (if k \<le> 1 then ''5m'' else if k \<le> 7 then ''10m'' else if k \<le> 30 then ''10m'' else ''1h'')"
proof -
  note p = py_int_decimal[OF assms(1)]
  have 1: "get_aggregation_window (decimal n @ ''h'') =
           Inr (if n \<le> 1 then ''1m'' else if n \<le> 6 then ''3m'' else if n \<le> 24 then ''5m'' else ''15m'')"
    using get_aggregation_window_hours[OF p] by simp
  have 2: "get_aggregation_window (decimal n @ ''d'') =
           Inr (if n \<le> 1 then ''5m'' else if n \<le> 7 then ''30m'' else if n \<le> 30 then ''2h'' else ''6h'')"
    using get_aggregation_window_days[OF p] by simp
  have 3: "get_cop_aggregation_window (decimal n @ ''h'') =
           Inr (if n \<le> 1 then ''1m'' else if n \<le> 6 then ''2m'' else if n \<le> 24 then ''5m'' else ''10m'')"
    using get_cop_aggregation_window_hours[OF p] by simp
  have 4: "get_cop_aggregation_window (decimal n @ ''d'') =
           Inr (if n \<le> 1 then ''5m'' else if n \<le> 7 then ''10m'' else if n \<le> 30 then ''10m'' else ''1h'')"
    using get_cop_aggregation_window_days[OF p] by simp
  show ?thesis
    using p 1 2 3 4 get_aggregation_window_hours[OF assms(2)] get_aggregation_window_days[OF assms(2)]
      get_cop_aggregation_window_hours[OF assms(2)] get_cop_aggregation_window_days[OF assms(2)]
    by (intro conjI)
qed

lemma py_int_minus_7: "py_int '' -7 '' = Inr (- 7)"
  by (simp add: py_int_def strip_def is_space_def parse_unsigned_def digit_of_def)

theorem window_policy_witness:
  "length (decimal 24) \<le> 4300 \<and> py_int '' -7 '' = Inr (- 7)
   \<and> decimal 24 = ''24'' \<and> py_int ''24'' = Inr 24
   \<and> get_aggregation_window ''24h'' = Inr ''5m''
   \<and> get_aggregation_window ''24d'' = Inr ''2h''
   \<and> get_cop_aggregation_window ''24h'' = Inr ''5m''
   \<and> get_cop_aggregation_window ''24d'' = Inr ''10m''
   \<and> get_aggregation_window '' -7 h'' = Inr ''1m''
   \<and> get_cop_aggregation_window '' -7 d'' = Inr ''5m''"
proof -
  have l: "length (decimal 24) \<le> 4300" by (simp add: decimal_24)
  show ?thesis
    using window_policy [OF l py_int_minus_7] l py_int_minus_7 by (simp add: decimal_24)
qed

text \<open>
  C7. A range whose unit is neither hours nor days is not rejected: the range of thirty
  minutes gets the window 5m from both selectors.
\<close>

theorem unknown_unit_counterexample:
  "get_aggregation_window ''30m'' = Inr ''5m'' \<and> get_cop_aggregation_window ''30m'' = Inr ''5m''"
  by (simp add: get_aggregation_window_def get_cop_aggregation_window_def endswith_def)

text \<open>
  C7, as the code has it: for every range whose last character is neither \<open>h\<close> nor
  \<open>d\<close>, both selectors return the default window 5m and raise nothing.
\<close>

theorem unknown_unit_default:
  assumes "\<not> endswith time_range CHR ''h''" and "\<not> endswith time_range CHR ''d''"
  shows "get_aggregation_window time_range = Inr ''5m''
       \<and> get_cop_aggregation_window time_range = Inr ''5m''"
  using assms by (simp add: get_aggregation_window_def get_cop_aggregation_window_def)

theorem unknown_unit_default_witness:
  "\<not> endswith ''2w'' CHR ''h'' \<and> \<not> endswith ''2w'' CHR ''d''
   \<and> get_aggregation_window ''2w'' = Inr ''5m''
   \<and> get_cop_aggregation_window ''2w'' = Inr ''5m''"
proof -
  have a: "\<not> endswith ''2w'' CHR ''h''" and b: "\<not> endswith ''2w'' CHR ''d''"
    by (simp_all add: endswith_def)
  show ?thesis using unknown_unit_default [OF a b] a b by simp
qed

subsection \<open>Scaling of stored values\<close>

lemma foldl_latest:
  "foldl (\<lambda>latest row. latest(s_name row \<mapsto> g row)) m0 result m =
     (case filter (\<lambda>r. s_name r = m) result of [] \<Rightarrow> m0 m | r # rs \<Rightarrow> Some (g (last (r # rs))))"
  by (induction result rule: rev_induct) (auto split: list.splits)

text \<open>
  C10. When the query returns rows, the metric query returns as many rows, with the same
  names and times; the value of a row is the stored value when its metric is one of the
  nine of the no-division set and a tenth of the stored value otherwise. The latest-values
  query gives, for a metric, the last of its rows under the same rule, and nothing when
  the metric has no row.
\<close>

theorem scaling_rule:
  assumes "(case aggregation_window of None \<Rightarrow> get_aggregation_window time_range | Some w' \<Rightarrow> Inr w') = Inr w"
    and "aggregate_query db metric_names time_range w = Returns result"
    and "last_query db = Returns latest_rows"
  shows "length (query_metrics db metric_names time_range aggregation_window) = length result
       \<and> (\<forall>i < length result.
            s_name (query_metrics db metric_names time_range aggregation_window ! i) = s_name (result ! i)
          \<and> s_time (query_metrics db metric_names time_range aggregation_window ! i) = s_time (result ! i)
          \<and> s_value (query_metrics db metric_names time_range aggregation_window ! i) =
              (if s_name (result ! i) \<in>
                    {''compressor_status'', ''brine_pump_status'', ''radiator_pump_status'',
                     ''switch_valve_status'', ''alarm_status'', ''alarm_code'',
                     ''operating_mode'', ''external_control'', ''power_consumption''}
               then s_value (result ! i) else s_value (result ! i) / 10))
       \<and> get_latest_values db metric =
           (case filter (\<lambda>r. s_name r = metric) latest_rows of
              [] \<Rightarrow> None
            | r # rs \<Rightarrow>
                Some \<lparr>l_value =
                        (if metric \<in>
                              {''compressor_status'', ''brine_pump_status'', ''radiator_pump_status'',
                               ''switch_valve_status'', ''alarm_status'', ''alarm_code'',
                               ''operating_mode'', ''external_control'', ''power_consumption''}
                         then s_value (last (r # rs)) else s_value (last (r # rs)) / 10),
                      l_unit = s_unit (last (r # rs)),
                      l_time = s_time (last (r # rs))\<rparr>)"
proof -
  let ?q = "query_metrics db metric_names time_range aggregation_window"
  have q: "?q = map (\<lambda>row. if s_name row \<notin> set no_division_fields
                          then row\<lparr>s_value := s_value row / 10\<rparr> else row) result"
    using assms(1,2) by (simp add: query_metrics_def)
  have nd: "set no_division_fields =
     {''compressor_status'', ''brine_pump_status'', ''radiator_pump_status'',
      ''switch_valve_status'', ''alarm_status'', ''alarm_code'',
      ''operating_mode'', ''external_control'', ''power_consumption''}"
    by (simp add: no_division_fields_def)
  have 1: "length ?q = length result" by (simp add: q)
  have 2: "\<forall>i < length result.
            s_name (?q ! i) = s_name (result ! i)
          \<and> s_time (?q ! i) = s_time (result ! i)
          \<and> s_value (?q ! i) =
              (if s_name (result ! i) \<in> set no_division_fields
               then s_value (result ! i) else s_value (result ! i) / 10)"
    by (simp add: q)
  have nm: "\<And>r rs. filter (\<lambda>r. s_name r = metric) latest_rows = r # rs \<Longrightarrow> s_name (last (r # rs)) = metric"
  proof -
    fix r rs assume h: "filter (\<lambda>r. s_name r = metric) latest_rows = r # rs"
    have "last (r # rs) \<in> set (filter (\<lambda>r. s_name r = metric) latest_rows)"
      unfolding h by (rule last_in_set) simp
    then show "s_name (last (r # rs)) = metric" by simp
  qed
  have 3: "get_latest_values db metric =
           (case filter (\<lambda>r. s_name r = metric) latest_rows of
              [] \<Rightarrow> None
            | r # rs \<Rightarrow>
                Some \<lparr>l_value =
                        (if metric \<in> set no_division_fields
                         then s_value (last (r # rs)) else s_value (last (r # rs)) / 10),
                      l_unit = s_unit (last (r # rs)),
                      l_time = s_time (last (r # rs))\<rparr>)"
    using assms(3) nm
    by (simp add: get_latest_values_def foldl_latest split: list.splits)
  show ?thesis using 1 2 3 unfolding nd by blast
qed

theorem scaling_rule_witness:
  "(case None of None \<Rightarrow> get_aggregation_window ''24h'' | Some w' \<Rightarrow> Inr w') = Inr ''5m''
   \<and> aggregate_query demo_db [''radiator_forward'', ''power_consumption''] ''24h'' ''5m'' = Returns demo_rows
   \<and> last_query demo_db = Returns demo_rows
   \<and> s_value (query_metrics demo_db [''radiator_forward'', ''power_consumption''] ''24h'' None ! 0) = 21.5
   \<and> s_value (query_metrics demo_db [''radiator_forward'', ''power_consumption''] ''24h'' None ! 1) = 1000
   \<and> get_latest_values demo_db ''radiator_forward'' = Some \<lparr>l_value = 22, l_unit = [], l_time = 60\<rparr>"
proof -
  have a: "(case None of None \<Rightarrow> get_aggregation_window ''24h'' | Some w' \<Rightarrow> Inr w') = Inr ''5m''"
    using get_aggregation_window_hours [OF py_int_24] by simp
  have b: "aggregate_query demo_db [''radiator_forward'', ''power_consumption''] ''24h'' ''5m'' = Returns demo_rows"
    by (simp add: demo_db_def)
  have c: "last_query demo_db = Returns demo_rows"
    by (simp add: demo_db_def)
  show ?thesis
    using scaling_rule [OF a b c, of "''radiator_forward''"] a b c
    by (simp add: demo_rows_def mk_def)
qed

subsection \<open>Hot-water cycles\<close>






lemma valve_sel [simp]: "s_time (valve t v) = t" "s_value (valve t v) = v"
  by (simp_all add: valve_def)












lemma sort_values_Nil [simp]: "sort_values [] = []" by (simp add: sort_values_def)










subsection \<open>No data and failed queries\<close>








subsection \<open>Event log\<close>

lemma collect_events_all:
  assumes "\<forall>m\<in>set ms. event_query db m = Returns (result m)"
  shows "collect_events db codes acc ms =
           Some (acc @ concat (map (\<lambda>m. metric_events codes m (result m)) ms))"
  using assms by (induction ms arbitrary: acc) simp_all

lemma sorted_reverse_desc: "sorted_wrt (\<lambda>a b. e_time b \<le> e_time a) (sorted_reverse events)"
proof -
  have "sorted (map (\<lambda>e. - e_time e) (sorted_reverse events))"
    unfolding sorted_reverse_def by (rule sorted_sort_key)
  then show ?thesis by (simp add: sorted_map)
qed

lemma mset_sorted_reverse: "mset (sorted_reverse events) = mset events"
  by (simp add: sorted_reverse_def)

lemma desc_distinct_strict:
  "sorted_wrt (\<lambda>a b. e_time b \<le> e_time a) xs \<Longrightarrow> distinct (map e_time xs)
     \<Longrightarrow> sorted_wrt (\<lambda>a b. e_time b < e_time a) xs"
proof (induction xs)
  case Nil
  then show ?case by simp
next
  case (Cons a xs)
  have "e_time x < e_time a" if "x \<in> set xs" for x
  proof -
    from Cons.prems(1) that have "e_time x \<le> e_time a" by simp
    moreover from Cons.prems(2) have "e_time a \<notin> e_time ` set xs" by simp
    with that have "e_time x \<noteq> e_time a" by (metis imageI)
    ultimately show ?thesis by simp
  qed
  with Cons show ?case by simp
qed

lemma distinct_times_sorted_reverse:
  "distinct (map e_time events) \<Longrightarrow> distinct (map e_time (sorted_reverse events))"
proof -
  have "mset (map e_time (sorted_reverse events)) = mset (map e_time events)"
    by (simp add: mset_sorted_reverse)
  then show "distinct (map e_time events) \<Longrightarrow> distinct (map e_time (sorted_reverse events))"
    by (metis mset_eq_imp_distinct_iff)
qed

text \<open>
  C9. The order is not strict: when the compressor and the brine pump start in the same
  minute, the log holds two events with the same time.
\<close>

theorem event_log_counterexample:
  "map e_time (get_event_log tie_db Map.empty 10) = [60, 60]
   \<and> \<not> sorted_wrt (\<lambda>a b. e_time b < e_time a) (get_event_log tie_db Map.empty 10)"
  by (simp add: get_event_log_def event_metrics_def tie_db_def metric_events_def sort_values_def
      mk_def detect_def on_off_def sorted_reverse_def slice_to_def)

text \<open>
  C9, as the code has it: when every query returns and the limit is not negative, the log
  is the first \<open>limit\<close> events of the events of all six signals, rearranged in
  descending order of time, equal times allowed. No returned event is older than an
  event left out; the order is strict when the times of the events are distinct; with 15
  events and limit 10 the log has 10 events.
\<close>

theorem event_log_sorted_limited:
  assumes "\<forall>metric\<in>set event_metrics. event_query db metric = Returns (result metric)"
    and "0 \<le> limit"
    and "events = concat (map (\<lambda>metric. metric_events alarm_codes metric (result metric)) event_metrics)"
  shows "get_event_log db alarm_codes limit = take (nat limit) (sorted_reverse events)
       \<and> mset (sorted_reverse events) = mset events
       \<and> sorted_wrt (\<lambda>a b. e_time b \<le> e_time a) (get_event_log db alarm_codes limit)
       \<and> length (get_event_log db alarm_codes limit) = min (nat limit) (length events)
       \<and> (\<forall>e\<in>set (get_event_log db alarm_codes limit).
            \<forall>e'\<in>set (drop (nat limit) (sorted_reverse events)). e_time e' \<le> e_time e)
       \<and> (distinct (map e_time events) \<longrightarrow>
            sorted_wrt (\<lambda>a b. e_time b < e_time a) (get_event_log db alarm_codes limit))
       \<and> (length events = 15 \<and> limit = 10 \<longrightarrow> length (get_event_log db alarm_codes limit) = 10)"
proof -
  let ?s = "sorted_reverse events"
  let ?n = "nat limit"
  have c: "collect_events db alarm_codes [] event_metrics = Some events"
    using collect_events_all[OF assms(1), of alarm_codes "[]"] assms(3) by simp
  have 1: "get_event_log db alarm_codes limit = take ?n ?s"
    using assms(2) by (simp add: get_event_log_def c slice_to_def)
  have 2: "mset ?s = mset events" by (rule mset_sorted_reverse)
  have s: "sorted_wrt (\<lambda>a b. e_time b \<le> e_time a) ?s" by (rule sorted_reverse_desc)
  have 3: "sorted_wrt (\<lambda>a b. e_time b \<le> e_time a) (take ?n ?s)"
    using s by (rule sorted_wrt_take)
  have len: "length ?s = length events" by (simp add: sorted_reverse_def)
  have 4: "length (take ?n ?s) = min ?n (length events)" by (simp add: len min.commute)
  have "sorted_wrt (\<lambda>a b. e_time b \<le> e_time a) (take ?n ?s @ drop ?n ?s)" using s by simp
  then have 5: "\<forall>e\<in>set (take ?n ?s). \<forall>e'\<in>set (drop ?n ?s). e_time e' \<le> e_time e"
    unfolding sorted_wrt_append by blast
  have 6: "distinct (map e_time events) \<longrightarrow> sorted_wrt (\<lambda>a b. e_time b < e_time a) (take ?n ?s)"
  proof
    assume "distinct (map e_time events)"
    then have "distinct (map e_time ?s)" by (rule distinct_times_sorted_reverse)
    then have "distinct (map e_time (take ?n ?s))" by (simp add: take_map [symmetric])
    with 3 show "sorted_wrt (\<lambda>a b. e_time b < e_time a) (take ?n ?s)" by (rule desc_distinct_strict)
  qed
  have 7: "length events = 15 \<and> limit = 10 \<longrightarrow> length (take ?n ?s) = 10"
    using 4 by auto
  show ?thesis unfolding 1 using 2 3 4 5 6 7 by blast
qed

lemma toggle_events_times:
  "map e_time (concat (map (\<lambda>metric. metric_events Map.empty metric (toggle_result metric)) event_metrics)) =
     [60, 120, 180, 240, 300, 360, 420, 480, 540, 600, 660, 720, 780, 840, 900]"
  by (simp add: event_metrics_def toggle_result_def toggle_rows_def metric_events_def sort_values_def
      mk_def detect_def on_off_def)

theorem event_log_sorted_limited_witness:
  "(0::int) \<le> 10
   \<and> length (concat (map (\<lambda>metric. metric_events Map.empty metric (toggle_result metric)) event_metrics)) = 15
   \<and> length (get_event_log toggle_db Map.empty 10) = 10
   \<and> sorted_wrt (\<lambda>a b. e_time b < e_time a) (get_event_log toggle_db Map.empty 10)"
proof -
  let ?events = "concat (map (\<lambda>metric. metric_events Map.empty metric (toggle_result metric)) event_metrics)"
  have q: "\<forall>metric\<in>set event_metrics. event_query toggle_db metric = Returns (toggle_result metric)"
    by (simp add: toggle_db_def)
  have l: "(0::int) \<le> 10" by simp
  have "length (map e_time ?events) = 15" unfolding toggle_events_times by simp
  then have n: "length ?events = 15" by simp
  have d: "distinct (map e_time ?events)" unfolding toggle_events_times by simp
  note t = event_log_sorted_limited [where alarm_codes = Map.empty, OF q l refl]
  have f: "distinct (map e_time ?events) \<longrightarrow>
      sorted_wrt (\<lambda>a b. e_time b < e_time a) (get_event_log toggle_db Map.empty 10)"
    using t by (elim conjE)
  have g: "length ?events = 15 \<and> (10::int) = 10 \<longrightarrow> length (get_event_log toggle_db Map.empty 10) = 10"
    using t by (elim conjE)
  from g n have 1: "length (get_event_log toggle_db Map.empty 10) = 10" by blast
  from f d have 2: "sorted_wrt (\<lambda>a b. e_time b < e_time a) (get_event_log toggle_db Map.empty 10)" by blast
  from l n 1 2 show ?thesis by blast
qed

subsection \<open>Energy integration\<close>
















subsection \<open>Duty-cycle runtime\<close>
































subsection \<open>COP estimate\<close>


















end
